theory Spec2Isabelle
  imports Main
begin

section \<open>The exception hierarchy of Quantum++ (classes/exception.h)\<close>

text \<open>
  The header declares an abstract base class \<open>qpp::exception::Exception\<close> that stores the
  text \<open>where_\<close> given to its constructor, thirty derived classes that only override
  \<open>type_description()\<close> with a string literal and inherit the base constructor, and
  \<open>CustomException\<close>, which has a second data member \<open>what_\<close>.

  The dynamic class of an object of one of the thirty stateless classes is a value of
  \<open>Kind\<close>; the constructors keep the names of the C++ classes.
\<close>

datatype Kind =
    Unknown | ZeroSize | MatrixNotSquare | MatrixNotCvector | MatrixNotRvector
    | MatrixNotVector | MatrixNotSquareNorCvector | MatrixNotSquareNorRvector
    | MatrixNotSquareNorVector | MatrixMismatchSubsys | DimsInvalid
    | DimsNotEqual | DimsMismatchMatrix | DimsMismatchCvector
    | DimsMismatchRvector | DimsMismatchVector | SubsysMismatchDims
    | PermInvalid | PermMismatchDims | NotQubitMatrix | NotQubitCvector
    | NotQubitRvector | NotQubitVector | NotQubitSubsys | NotBipartite
    | NoCodeword | OutOfRange | TypeMismatch | SizeMismatch | UndefinedType

text \<open>
  An exception object: \<open>Fixed K w\<close> is the object built by \<open>K(w)\<close> for one of the thirty
  classes above (the inherited constructor \<open>Exception(where) : where_{where}\<close>), and
  \<open>CustomException w m\<close> the one built by \<open>CustomException(where, what)\<close>, whose initialiser
  list is \<open>Exception{where}, what_{what}\<close>. Neither constructor body has a statement, a
  check or a throw, so construction is a total constructor of the datatype. The selectors
  \<open>where_m\<close> and \<open>what_m\<close> are the data members \<open>where_\<close> and \<open>what_\<close> (a name may not end
  with an underscore here). A \<open>std::string\<close> is a sequence of bytes, a \<open>string\<close> here.
\<close>

datatype Exception =
    Fixed (kind: Kind) (where_m: string)
  | CustomException (where_m: string) (what_m: string)

text \<open>
  The body of \<open>type_description()\<close> in each of the thirty stateless classes. The base
  class declares the function pure virtual; the body it defines out of line (returning
  "qpp::exception::Exception") is reached only by a qualified call, never by the virtual
  call in \<open>what()\<close>, and no object has the base class as its dynamic class.
\<close>

fun type_description_of :: "Kind \<Rightarrow> string" where
  "type_description_of Unknown = ''UNKNOWN EXCEPTION''"
| "type_description_of ZeroSize = ''Object has zero size''"
| "type_description_of MatrixNotSquare = ''Matrix is not square''"
| "type_description_of MatrixNotCvector = ''Matrix is not a column vector''"
| "type_description_of MatrixNotRvector = ''Matrix is not a row vector''"
| "type_description_of MatrixNotVector = ''Matrix is not a vector''"
| "type_description_of MatrixNotSquareNorCvector = ''Matrix is not square nor column vector''"
| "type_description_of MatrixNotSquareNorRvector = ''Matrix is not square nor row vector''"
| "type_description_of MatrixNotSquareNorVector = ''Matrix is not square nor vector''"
| "type_description_of MatrixMismatchSubsys = ''Matrix mismatch subsystems''"
| "type_description_of DimsInvalid = ''Invalid dimension(s)''"
| "type_description_of DimsNotEqual = ''Dimensions not equal''"
| "type_description_of DimsMismatchMatrix = ''Dimension(s) mismatch matrix size''"
| "type_description_of DimsMismatchCvector = ''Dimension(s) mismatch column vector size''"
| "type_description_of DimsMismatchRvector = ''Dimension(s) mismatch row vector size''"
| "type_description_of DimsMismatchVector = ''Dimension(s) mismatch vector size''"
| "type_description_of SubsysMismatchDims = ''Subsystems mismatch dimensions''"
| "type_description_of PermInvalid = ''Invalid permutation''"
| "type_description_of PermMismatchDims = ''Permutation mismatch dimensions''"
| "type_description_of NotQubitMatrix = ''Matrix is not 2 x 2''"
| "type_description_of NotQubitCvector = ''Column vector is not 2 x 1''"
| "type_description_of NotQubitRvector = ''Row vector is not 1 x 2''"
| "type_description_of NotQubitVector = ''Vector is not 2 x 1 nor 1 x 2''"
| "type_description_of NotQubitSubsys = ''Subsystems are not qubits''"
| "type_description_of NotBipartite = ''Not bi-partite''"
| "type_description_of NoCodeword = ''Codeword does not exist''"
| "type_description_of OutOfRange = ''Parameter out of range''"
| "type_description_of TypeMismatch = ''Type mismatch''"
| "type_description_of SizeMismatch = ''Size mismatch''"
| "type_description_of UndefinedType = ''Not defined for this type''"

text \<open>
  The virtual call \<open>this->type_description()\<close>: the override of the dynamic class runs.
  \<open>CustomException::type_description\<close> returns \<open>"CUSTOM EXCEPTION " + what_\<close>.
\<close>

fun type_description :: "Exception \<Rightarrow> string" where
  "type_description (Fixed K w) = type_description_of K"
| "type_description (CustomException w m) = ''CUSTOM EXCEPTION '' @ m"

section \<open>Character buffers and their lifetime\<close>

text \<open>
  \<open>Exception::what()\<close> returns a \<open>const char*\<close> into the buffer of a \<open>std::string\<close> that is
  a local variable of the function, so what a caller can read depends on whether that
  string still exists. A store lists the buffers of the \<open>std::string\<close> objects created so
  far: cell \<open>p\<close> is \<open>Some bytes\<close> while the string owning buffer \<open>p\<close> exists and \<open>None\<close> once
  it has been destroyed.
\<close>

type_synonym addr = nat

type_synonym store = "string option list"

text \<open>\<open>std::string msg_;\<close> creates an empty string; its buffer is a new cell.\<close>

definition new_string :: "store \<Rightarrow> addr \<times> store" where
  "new_string s = (length s, s @ [Some []])"

text \<open>\<open>msg_ += t\<close> extends the bytes of an existing string.\<close>

definition append_string :: "addr \<Rightarrow> string \<Rightarrow> store \<Rightarrow> store" where
  "append_string p t s =
     (if p < length s
      then (case s ! p of Some bytes \<Rightarrow> s[p := Some (bytes @ t)] | None \<Rightarrow> s)
      else s)"

text \<open>The destructor of a string ends the lifetime of its buffer.\<close>

definition destroy_string :: "addr \<Rightarrow> store \<Rightarrow> store" where
  "destroy_string p s = s[p := None]"

text \<open>
  Reading a \<open>const char*\<close> as the text it points to: the bytes of the buffer up to the
  first zero byte, if the buffer exists. There is no defined result (\<open>None\<close>) for a pointer
  into a buffer that has been destroyed.
\<close>

definition c_string_at :: "store \<Rightarrow> addr \<Rightarrow> string option" where
  "c_string_at s p =
     (if p < length s then map_option (takeWhile (\<lambda>c. c \<noteq> CHR 0x00)) (s ! p) else None)"

section \<open>The rendered message: \<open>Exception::what()\<close>\<close>

text \<open>
  The statements of \<open>what()\<close> up to its return expression: the local \<open>msg_\<close> is created
  empty, five pieces are appended with \<open>+=\<close>, and \<open>msg_.c_str()\<close> is the pointer to the
  buffer of \<open>msg_\<close>. The result is that pointer and the store at the return statement,
  where \<open>msg_\<close> still exists.
\<close>

definition what_body :: "Exception \<Rightarrow> store \<Rightarrow> addr \<times> store" where
  "what_body e s =
     (let (msg, s) = new_string s;
          s = append_string msg ''IN '' s;
          s = append_string msg (where_m e) s;
          s = append_string msg '': '' s;
          s = append_string msg (type_description e) s;
          s = append_string msg ''!'' s
      in (msg, s))"

text \<open>
  A call of \<open>what()\<close>: the body runs, and leaving the function destroys the local \<open>msg_\<close>
  before the caller receives the pointer into it.
\<close>

definition what :: "Exception \<Rightarrow> store \<Rightarrow> addr \<times> store" where
  "what e s = (case what_body e s of (msg, s') \<Rightarrow> (msg, destroy_string msg s'))"

section \<open>What a call of \<open>what()\<close> leaves behind\<close>

lemma append_string_last:
  "append_string (length s) t (s @ [Some bytes]) = s @ [Some (bytes @ t)]"
  by (simp add: append_string_def)

lemma what_body_eq:
  "what_body e s =
     (length s, s @ [Some (''IN '' @ where_m e @ '': '' @ type_description e @ ''!'')])"
  by (simp add: what_body_def new_string_def append_string_last)

lemma what_eq: "what e s = (length s, s @ [None])"
  by (simp add: what_def what_body_eq destroy_string_def)

lemma read_after_what: "(case what e s of (p, s') \<Rightarrow> c_string_at s' p) = None"
  by (simp add: what_eq c_string_at_def)

lemma read_at_return:
  "(case what_body e s of (p, s') \<Rightarrow> c_string_at s' p)
     = Some (takeWhile (\<lambda>c. c \<noteq> CHR 0x00)
               (''IN '' @ where_m e @ '': '' @ type_description e @ ''!''))"
  by (simp add: what_body_eq c_string_at_def)

text \<open>
  C1. The specification has the rendered message of every exception object be "IN ", the
  origin, ": ", the description, "!". The body of \<open>what()\<close> does assemble exactly these
  bytes in \<open>msg_\<close>, for every object and origin. The message the caller gets is another
  matter: the pointer returned designates the buffer of \<open>msg_\<close>, which is destroyed on
  return, so for every object, origin and store there is no defined text behind it.
\<close>

theorem what_returns_pointer_to_destroyed_buffer:
  "(case what_body e s of (p, s') \<Rightarrow> s' ! p)
     = Some (''IN '' @ where_m e @ '': '' @ type_description e @ ''!'')
   \<and> (case what e s of (p, s') \<Rightarrow> c_string_at s' p) = None
   \<and> (case what e s of (p, s') \<Rightarrow> c_string_at s' p)
       \<noteq> Some (''IN '' @ where_m e @ '': '' @ type_description e @ ''!'')
   \<and> (case what (Fixed ZeroSize []) [] of (p, s') \<Rightarrow> c_string_at s' p)
       \<noteq> Some ''IN : Object has zero size!''"
  by (simp add: read_after_what what_body_eq)

text \<open>
  C4. The constructor keeps the origin as given: \<open>where_\<close> reads back the argument. The
  rendered message is specified to begin with "IN ", the origin, ": ".
  For an object of any stateless class built with the origin "foo::bar", the body of
  \<open>what()\<close> assembles a text that begins so, but the pointer the caller receives
  designates the destroyed buffer of \<open>msg_\<close> and no text can be read through it. Even
  at the return statement, an origin with a zero byte in it cuts the text a reader of the
  \<open>const char*\<close> sees: for the three bytes a, zero, b it is "IN a".
\<close>

theorem origin_kept_but_message_unreadable:
  "where_m (Fixed K origin) = origin
   \<and> (case what_body (Fixed K ''foo::bar'') s of (p, s') \<Rightarrow> s' ! p)
       = Some (''IN foo::bar: '' @ type_description_of K @ ''!'')
   \<and> (case what (Fixed K ''foo::bar'') s of (p, s') \<Rightarrow> c_string_at s' p) = None
   \<and> (case what_body (Fixed K [CHR ''a'', CHR 0x00, CHR ''b'']) s of (p, s') \<Rightarrow>
          c_string_at s' p) = Some ''IN a''"
proof -
  have built: "(case what_body (Fixed K ''foo::bar'') s of (p, s') \<Rightarrow> s' ! p)
      = Some (''IN foo::bar: '' @ type_description_of K @ ''!'')"
    by (simp add: what_body_eq)
  have cut: "(case what_body (Fixed K [CHR ''a'', CHR 0x00, CHR ''b'']) s of (p, s') \<Rightarrow>
      c_string_at s' p) = Some ''IN a''"
    by (simp add: read_at_return)
  from built cut show ?thesis
    by (simp add: read_after_what)
qed

text \<open>
  C5. For \<open>MatrixNotSquare("apply")\<close> the body of \<open>what()\<close> assembles
  "IN apply: Matrix is not square!" in \<open>msg_\<close>, but the call returns a pointer to the
  destroyed buffer: the caller cannot read that text, whatever the store was.
\<close>

theorem MatrixNotSquare_apply_message_destroyed:
  "(case what_body (Fixed MatrixNotSquare ''apply'') s of (p, s') \<Rightarrow> c_string_at s' p)
     = Some ''IN apply: Matrix is not square!''
   \<and> (case what (Fixed MatrixNotSquare ''apply'') s of (p, s') \<Rightarrow> c_string_at s' p) = None
   \<and> (case what (Fixed MatrixNotSquare ''apply'') [] of (p, s') \<Rightarrow> c_string_at s' p)
       \<noteq> Some ''IN apply: Matrix is not square!''"
  by (simp add: read_after_what read_at_return)

text \<open>
  C6. For \<open>PermMismatchDims("syspermute")\<close> the body of \<open>what()\<close> assembles
  "IN syspermute: Permutation mismatch dimensions!" in \<open>msg_\<close>, but the call returns a
  pointer to the destroyed buffer: the caller cannot read that text.
\<close>

theorem PermMismatchDims_syspermute_message_destroyed:
  "(case what_body (Fixed PermMismatchDims ''syspermute'') s of (p, s') \<Rightarrow> c_string_at s' p)
     = Some ''IN syspermute: Permutation mismatch dimensions!''
   \<and> (case what (Fixed PermMismatchDims ''syspermute'') s of (p, s') \<Rightarrow> c_string_at s' p)
       = None
   \<and> (case what (Fixed PermMismatchDims ''syspermute'') [] of (p, s') \<Rightarrow> c_string_at s' p)
       \<noteq> Some ''IN syspermute: Permutation mismatch dimensions!''"
  by (simp add: read_after_what read_at_return)

text \<open>
  C10. The description of an \<open>Unknown\<close> object is "UNKNOWN EXCEPTION" for every origin. Its
  rendered message is not "IN ", the origin, ": UNKNOWN EXCEPTION!": the body of \<open>what()\<close>
  assembles these bytes, and the call returns a pointer to their destroyed buffer.
\<close>

theorem Unknown_description_and_destroyed_message:
  "type_description (Fixed Unknown origin) = ''UNKNOWN EXCEPTION''
   \<and> (case what_body (Fixed Unknown origin) s of (p, s') \<Rightarrow> s' ! p)
       = Some (''IN '' @ origin @ '': UNKNOWN EXCEPTION!'')
   \<and> (case what (Fixed Unknown origin) s of (p, s') \<Rightarrow> c_string_at s' p) = None
   \<and> (case what (Fixed Unknown ''f'') [] of (p, s') \<Rightarrow> c_string_at s' p)
       \<noteq> Some ''IN f: UNKNOWN EXCEPTION!''"
  by (simp add: read_after_what what_body_eq)



section \<open>Descriptions\<close>

text \<open>
  C2. For each of the thirty stateless classes, the description of an object is the
  string literal of that class's override, for every origin text (the empty one
  included): it does not depend on the origin and is the same for all objects of the
  class.
\<close>

theorem fixed_descriptions:
  "type_description (Fixed Unknown origin) = ''UNKNOWN EXCEPTION''
   \<and> type_description (Fixed ZeroSize origin) = ''Object has zero size''
   \<and> type_description (Fixed MatrixNotSquare origin) = ''Matrix is not square''
   \<and> type_description (Fixed MatrixNotCvector origin) = ''Matrix is not a column vector''
   \<and> type_description (Fixed MatrixNotRvector origin) = ''Matrix is not a row vector''
   \<and> type_description (Fixed MatrixNotVector origin) = ''Matrix is not a vector''
   \<and> type_description (Fixed MatrixNotSquareNorCvector origin) = ''Matrix is not square nor column vector''
   \<and> type_description (Fixed MatrixNotSquareNorRvector origin) = ''Matrix is not square nor row vector''
   \<and> type_description (Fixed MatrixNotSquareNorVector origin) = ''Matrix is not square nor vector''
   \<and> type_description (Fixed MatrixMismatchSubsys origin) = ''Matrix mismatch subsystems''
   \<and> type_description (Fixed DimsInvalid origin) = ''Invalid dimension(s)''
   \<and> type_description (Fixed DimsNotEqual origin) = ''Dimensions not equal''
   \<and> type_description (Fixed DimsMismatchMatrix origin) = ''Dimension(s) mismatch matrix size''
   \<and> type_description (Fixed DimsMismatchCvector origin) = ''Dimension(s) mismatch column vector size''
   \<and> type_description (Fixed DimsMismatchRvector origin) = ''Dimension(s) mismatch row vector size''
   \<and> type_description (Fixed DimsMismatchVector origin) = ''Dimension(s) mismatch vector size''
   \<and> type_description (Fixed SubsysMismatchDims origin) = ''Subsystems mismatch dimensions''
   \<and> type_description (Fixed PermInvalid origin) = ''Invalid permutation''
   \<and> type_description (Fixed PermMismatchDims origin) = ''Permutation mismatch dimensions''
   \<and> type_description (Fixed NotQubitMatrix origin) = ''Matrix is not 2 x 2''
   \<and> type_description (Fixed NotQubitCvector origin) = ''Column vector is not 2 x 1''
   \<and> type_description (Fixed NotQubitRvector origin) = ''Row vector is not 1 x 2''
   \<and> type_description (Fixed NotQubitVector origin) = ''Vector is not 2 x 1 nor 1 x 2''
   \<and> type_description (Fixed NotQubitSubsys origin) = ''Subsystems are not qubits''
   \<and> type_description (Fixed NotBipartite origin) = ''Not bi-partite''
   \<and> type_description (Fixed NoCodeword origin) = ''Codeword does not exist''
   \<and> type_description (Fixed OutOfRange origin) = ''Parameter out of range''
   \<and> type_description (Fixed TypeMismatch origin) = ''Type mismatch''
   \<and> type_description (Fixed SizeMismatch origin) = ''Size mismatch''
   \<and> type_description (Fixed UndefinedType origin) = ''Not defined for this type''
   \<and> type_description (Fixed K origin) = type_description (Fixed K [])
   \<and> type_description (Fixed K origin) = type_description (Fixed K origin')"
  by simp

text \<open>
  C3. The description of a \<open>CustomException\<close> is "CUSTOM EXCEPTION " followed by the detail
  text given to the constructor, whatever the origin and the detail are (an empty detail,
  or one with quotes, line breaks and other bytes); for the origin "validate" and the
  detail "negative probability" it is "CUSTOM EXCEPTION negative probability".
\<close>

theorem custom_description:
  "type_description (CustomException origin detail) = ''CUSTOM EXCEPTION '' @ detail
   \<and> type_description (CustomException origin []) = ''CUSTOM EXCEPTION ''
   \<and> type_description (CustomException ''validate'' ''negative probability'')
       = ''CUSTOM EXCEPTION negative probability''"
  by simp

text \<open>
  C9. None of the thirty fixed descriptions is empty, and two classes have the same
  description only if they are the same class.
\<close>

theorem descriptions_nonempty_and_distinct:
  "type_description_of K \<noteq> []
   \<and> ((type_description_of K = type_description_of K') = (K = K'))"
proof
  show "type_description_of K \<noteq> []"
    by (cases K) simp_all
  show "(type_description_of K = type_description_of K') = (K = K')"
    by (cases K; cases K'; simp)
qed

end
